theory Spec2Isabelle
  imports Main
begin

section \<open>Platform calls and their outcomes\<close>

text \<open>
  The assistant talks to collaborators it does not own: the chat platform (replies,
  reactions, messages, the REST registration), the plugin hook bus, the datastore and the
  speech engines. Every such call returns a promise. The model records each call in a trace,
  in the order the code issues it, and takes the promise's outcome from an oracle: a list of
  outcomes, one per call, read from the front (a call made after the list is used up
  resolves). \<open>None\<close> is a promise that resolves, \<open>Some e\<close> one that rejects with
  \<open>e\<close>. Theorems quantify over the oracle, so they hold whatever the platform does.
  In the command pipeline and the lifecycle, calls are awaited one after the other: a
  caller who does not await is outside the model there. For playable speech, calls of
  \<open>generate\<close> that overlap are modelled as well.
  Debug logging (\<open>this.log.debug?.(...)\<close>) is left out.
\<close>

type_synonym err = string

type_synonym outcome = "err option"

fun next_outcome :: "outcome list \<Rightarrow> outcome" where
  "next_outcome [] = None"
| "next_outcome (out # outs) = out"

datatype result = success | failure

text \<open>\<open>enum CommandResultEmoji\<close>, and its lookup \<open>CommandResultEmoji[result]\<close>.\<close>

datatype emoji = emoji_success | emoji_failure | emoji_forbidden

fun CommandResultEmoji :: "result \<Rightarrow> emoji" where
  "CommandResultEmoji success = emoji_success"
| "CommandResultEmoji failure = emoji_failure"

fun result_name :: "result \<Rightarrow> string" where
  "result_name success = ''success''"
| "result_name failure = ''failure''"

datatype content = Emoji emoji | Placeholder | Payload string

datatype level = Info | Warn | Error

text \<open>
  The calls of the command pipeline. \<open>CommandLog lvl r cause\<close> is
  \<open>this.log.<lvl>(log(r), options[, cause])\<close>; \<open>ErrorSink e\<close> is the
  \<open>this.log.error\<close> reached through a \<open>.catch\<close>; \<open>Execute\<close> is the call
  of the command body, \<open>command.execute(event)\<close>.
\<close>

datatype action =
    Beep result
  | InteractionReply content
  | InteractionFollowUp content
  | MessageReact emoji
  | MessageReply string
  | DestinationSend emoji
  | Execute
  | CommandLog level string "err option"
  | ErrorSink err

section \<open>One command invocation\<close>

text \<open>
  The mutable state of one invocation: \<open>event.notified\<close>; \<open>source.replied\<close> of the
  interaction (slash path); whether the acknowledgment timer is still pending (slash path);
  the closure variable \<open>message\<close> of the voice path, a message being identified by the
  indicator it carries (member and command are fixed during one invocation); the trace; and
  the oracle.
\<close>

record invocation =
  notified :: bool
  replied :: bool
  timer :: bool
  message :: "emoji option"
  trace :: "action list"
  world :: "outcome list"

definition new_event :: "outcome list \<Rightarrow> invocation" where
  "new_event w = \<lparr>notified = False, replied = False, timer = False, message = None,
     trace = [], world = w\<rparr>"

definition issue :: "action \<Rightarrow> invocation \<Rightarrow> invocation" where
  "issue a s = s\<lparr>trace := trace s @ [a]\<rparr>"

text \<open>A call to the platform: recorded, and its outcome read from the oracle.\<close>

definition platform :: "action \<Rightarrow> invocation \<Rightarrow> outcome \<times> invocation" where
  "platform a s = (next_outcome (world s), issue a (s\<lparr>world := tl (world s)\<rparr>))"

text \<open>\<open>promise.catch(this.log.error)\<close>: a rejection ends in the error log.\<close>

fun caught :: "outcome \<times> invocation \<Rightarrow> invocation" where
  "caught (None, s) = s"
| "caught (Some e, s) = issue (ErrorSink e) s"

subsection \<open>Slash path: the event of \<open>#runCommandByInteraction\<close>\<close>

text \<open>
  \<open>source.reply\<close> of the platform library marks the interaction as replied once the
  call has gone through; \<open>source.followUp\<close> leaves the flag alone.
\<close>

definition source_reply :: "content \<Rightarrow> invocation \<Rightarrow> outcome \<times> invocation" where
  "source_reply c s =
     (case platform (InteractionReply c) s of
        (None, s1) \<Rightarrow> (None, s1\<lparr>replied := True\<rparr>)
      | (Some e, s1) \<Rightarrow> (Some e, s1))"

definition source_followUp :: "content \<Rightarrow> invocation \<Rightarrow> outcome \<times> invocation" where
  "source_followUp c s = platform (InteractionFollowUp c) s"

definition event_notify_slash :: "result \<Rightarrow> invocation \<Rightarrow> outcome \<times> invocation" where
  "event_notify_slash r s =
     (if notified s then (None, s)
      else
        let s1 = issue (Beep r) (s\<lparr>notified := True\<rparr>);
            e = CommandResultEmoji r
        in if replied s1 then source_followUp (Emoji e) s1 else source_reply (Emoji e) s1)"

definition event_reply_slash :: "string \<Rightarrow> result \<Rightarrow> invocation \<Rightarrow> outcome \<times> invocation" where
  "event_reply_slash p r s =
     (case event_notify_slash r s of
        (Some e, s1) \<Rightarrow> (Some e, s1)
      | (None, s1) \<Rightarrow> source_followUp (Payload p) s1)"

text \<open>
  The callback of \<open>setTimeout(..., 2500)\<close>: it runs if the timer is still pending when the
  deadline passes, and sends the placeholder.
\<close>

definition timeout_fires :: "invocation \<Rightarrow> invocation" where
  "timeout_fires s =
     (if timer s then caught (source_reply Placeholder (s\<lparr>timer := False\<rparr>)) else s)"

definition clearTimeout :: "invocation \<Rightarrow> invocation" where
  "clearTimeout s = s\<lparr>timer := False\<rparr>"

subsection \<open>Text path: the event of \<open>#runCommandByMessage\<close>\<close>

definition event_notify_text :: "result \<Rightarrow> invocation \<Rightarrow> outcome \<times> invocation" where
  "event_notify_text r s =
     (if notified s then (None, s)
      else platform (MessageReact (CommandResultEmoji r)) (issue (Beep r) (s\<lparr>notified := True\<rparr>)))"

definition event_reply_text :: "string \<Rightarrow> result \<Rightarrow> invocation \<Rightarrow> outcome \<times> invocation" where
  "event_reply_text p r s =
     (case event_notify_text r s of
        (Some e, s1) \<Rightarrow> (Some e, s1)
      | (None, s1) \<Rightarrow> platform (MessageReply p) s1)"

subsection \<open>Voice path: the closure \<open>notify\<close> and the event of \<open>#runCommandByAudio\<close>\<close>

text \<open>
  The closure \<open>notify\<close> memoizes the message it has sent: the variable is assigned only
  when \<open>source.destination.send\<close> resolves.
\<close>

definition notify_closure :: "result \<Rightarrow> invocation \<Rightarrow> (err + emoji) \<times> invocation" where
  "notify_closure r s =
     (case message s of
        Some m \<Rightarrow> (Inr m, s)
      | None \<Rightarrow>
          (case platform (DestinationSend (CommandResultEmoji r)) (issue (Beep r) s) of
             (Some e, s1) \<Rightarrow> (Inl e, s1)
           | (None, s1) \<Rightarrow>
               (Inr (CommandResultEmoji r), s1\<lparr>message := Some (CommandResultEmoji r)\<rparr>)))"

definition event_notify_voice :: "result \<Rightarrow> invocation \<Rightarrow> outcome \<times> invocation" where
  "event_notify_voice r s =
     (if notified s then (None, s)
      else
        (case notify_closure r (s\<lparr>notified := True\<rparr>) of
           (Inl e, s1) \<Rightarrow> (Some e, s1)
         | (Inr m, s1) \<Rightarrow> (None, s1)))"

definition event_reply_voice :: "string \<Rightarrow> result \<Rightarrow> invocation \<Rightarrow> outcome \<times> invocation" where
  "event_reply_voice p r s =
     (case event_notify_voice r s of
        (Some e, s1) \<Rightarrow> (Some e, s1)
      | (None, s1) \<Rightarrow>
          (case notify_closure r s1 of
             (Inl e, s2) \<Rightarrow> (Some e, s2)
           | (Inr m, s2) \<Rightarrow> platform (MessageReply p) s2))"

subsection \<open>The command body\<close>

text \<open>
  \<open>command.execute(event)\<close> is plugin code. What the pipeline can observe of it is the
  sequence of calls it makes on the event while it runs, and how it ends: it returns a
  boolean or nothing, or it throws. On the slash path the deadline of the acknowledgment
  timer may pass while the body is suspended (\<open>Elapse\<close>). A call made without a result
  argument is the call with \<open>success\<close>, the default of the parameter.
\<close>

datatype kind = Slash | Text | Voice

datatype call = CallNotify result | CallReply string result | Elapse

datatype completion = Returns "bool option" | Throws err

text \<open>
  A command, as far as the pipeline reads it: \<open>command.plugin.permissions[command.name]\<close>
  (absent for a command that declares none), and the behaviour of \<open>command.execute\<close>.
\<close>

record command =
  permissions :: "string list option"
  calls :: "call list"
  completion :: completion

fun event_notify :: "kind \<Rightarrow> result \<Rightarrow> invocation \<Rightarrow> outcome \<times> invocation" where
  "event_notify Slash r s = event_notify_slash r s"
| "event_notify Text r s = event_notify_text r s"
| "event_notify Voice r s = event_notify_voice r s"

fun event_reply :: "kind \<Rightarrow> string \<Rightarrow> result \<Rightarrow> invocation \<Rightarrow> outcome \<times> invocation" where
  "event_reply Slash p r s = event_reply_slash p r s"
| "event_reply Text p r s = event_reply_text p r s"
| "event_reply Voice p r s = event_reply_voice p r s"

fun execute :: "kind \<Rightarrow> call list \<Rightarrow> invocation \<Rightarrow> invocation" where
  "execute k [] s = s"
| "execute k (CallNotify r # cs) s = execute k cs (snd (event_notify k r s))"
| "execute k (CallReply p r # cs) s = execute k cs (snd (event_reply k p r s))"
| "execute k (Elapse # cs) s = execute k cs (timeout_fires s)"

text \<open>\<open>(await command.execute(event)) === false ? 'failure' : 'success'\<close>\<close>

fun result_of :: "bool option \<Rightarrow> result" where
  "result_of (Some False) = failure"
| "result_of v = success"

text \<open>
  \<open>member.permissions.has(command.plugin.permissions[command.name] ?? [])\<close>: the member's
  permissions are the effective ones, as the platform library resolves them.
\<close>

definition required :: "command \<Rightarrow> string list" where
  "required c = (case permissions c of None \<Rightarrow> [] | Some ps \<Rightarrow> ps)"

definition has :: "string list \<Rightarrow> string list \<Rightarrow> bool" where
  "has perms req = (set req \<subseteq> set perms)"

subsection \<open>The three entry points\<close>

text \<open>The state in which the body has run, just before the pipeline looks at how it ended.\<close>

definition after_body :: "kind \<Rightarrow> command \<Rightarrow> invocation \<Rightarrow> invocation" where
  "after_body k c s = execute k (calls c) (issue Execute s)"

text \<open>The handlers of \<open>.catch((error) => ...)\<close> at the end of each entry point.\<close>

definition catch_slash :: "err \<Rightarrow> invocation \<Rightarrow> invocation" where
  "catch_slash e s =
     (case (if \<not> replied s then source_reply (Emoji emoji_failure) s else (None, s)) of
        (out, s1) \<Rightarrow>
          caught (out, issue (CommandLog Error ''error'' (Some e)) (issue (Beep failure) s1)))"

definition catch_text :: "err \<Rightarrow> invocation \<Rightarrow> invocation" where
  "catch_text e s =
     (case platform (MessageReact emoji_failure) s of
        (out, s1) \<Rightarrow>
          caught (out, issue (CommandLog Error ''error'' (Some e)) (issue (Beep failure) s1)))"

definition catch_voice :: "err \<Rightarrow> invocation \<Rightarrow> invocation" where
  "catch_voice e s = issue (CommandLog Error ''error'' (Some e)) (issue (Beep failure) s)"

text \<open>
  The normal end of the body, shared by the three paths up to the event's own
  \<open>notify\<close>: \<open>event.notify(result).catch(this.log.error); this.log.info(log(result), ...)\<close>.
  The info line is written while the notification is still on its way, so a rejection of
  the notification is logged after it.
\<close>

definition finish :: "kind \<Rightarrow> bool option \<Rightarrow> invocation \<Rightarrow> invocation" where
  "finish k v s =
     (case event_notify k (result_of v) s of
        (out, s1) \<Rightarrow> caught (out, issue (CommandLog Info (result_name (result_of v)) None) s1))"

definition runCommandByInteraction :: "command \<Rightarrow> bool \<Rightarrow> outcome list \<Rightarrow> invocation" where
  "runCommandByInteraction c has_channel w =
     (if \<not> has_channel then new_event w
      else
        (case completion c of
           Returns v \<Rightarrow>
             finish Slash v (clearTimeout (after_body Slash c ((new_event w)\<lparr>timer := True\<rparr>)))
         | Throws e \<Rightarrow>
             catch_slash e (after_body Slash c ((new_event w)\<lparr>timer := True\<rparr>))))"

text \<open>
  \<open>member\<close> is \<open>source.member ?? (await this.guild.members.fetch(source.author.id))\<close>:
  the permissions of the member, or the error the fetch rejects with.
\<close>

definition runCommandByMessage :: "command \<Rightarrow> err + string list \<Rightarrow> outcome list \<Rightarrow> invocation" where
  "runCommandByMessage c member w =
     (case member of
        Inl e \<Rightarrow> catch_text e (new_event w)
      | Inr perms \<Rightarrow>
          (if \<not> has perms (required c) then
             (case platform (MessageReact emoji_forbidden) (new_event w) of
                (out, s1) \<Rightarrow>
                  caught (out, issue (CommandLog Warn ''forbidden'' None)
                                 (issue (Beep failure) s1)))
           else
             (case completion c of
                Returns v \<Rightarrow> finish Text v (after_body Text c (new_event w))
              | Throws e \<Rightarrow> catch_text e (after_body Text c (new_event w)))))"

definition runCommandByAudio :: "command \<Rightarrow> string list \<Rightarrow> outcome list \<Rightarrow> invocation" where
  "runCommandByAudio c perms w =
     (if \<not> has perms (required c) then
        issue (CommandLog Warn ''forbidden'' None) (issue (Beep failure) (new_event w))
      else
        (case completion c of
           Returns v \<Rightarrow> finish Voice v (after_body Voice c (new_event w))
         | Throws e \<Rightarrow> catch_voice e (after_body Voice c (new_event w))))"

text \<open>What the trace is read for.\<close>

fun carries :: "emoji \<Rightarrow> action \<Rightarrow> bool" where
  "carries e (InteractionReply (Emoji e')) = (e = e')"
| "carries e (InteractionFollowUp (Emoji e')) = (e = e')"
| "carries e (MessageReact e') = (e = e')"
| "carries e (DestinationSend e') = (e = e')"
| "carries e a = False"

definition is_indicator :: "action \<Rightarrow> bool" where
  "is_indicator a = (carries emoji_success a \<or> carries emoji_failure a \<or> carries emoji_forbidden a)"

fun notify_many :: "kind \<Rightarrow> result list \<Rightarrow> invocation \<Rightarrow> invocation" where
  "notify_many k [] s = s"
| "notify_many k (r # rs) s = notify_many k rs (snd (event_notify k r s))"

fun is_command_log :: "action \<Rightarrow> bool" where
  "is_command_log (CommandLog l r c) = True"
| "is_command_log a = False"

text \<open>The log line a \<open>.catch(this.log.error)\<close> adds for an outcome.\<close>

fun sink :: "outcome \<Rightarrow> action list" where
  "sink None = []"
| "sink (Some e) = [ErrorSink e]"

text \<open>The call that carries the payload of a reply on each path.\<close>

fun payload_send :: "kind \<Rightarrow> string \<Rightarrow> action" where
  "payload_send Slash p = InteractionFollowUp (Payload p)"
| "payload_send Text p = MessageReply p"
| "payload_send Voice p = MessageReply p"

section \<open>Playable speech\<close>

text \<open>
  A synthesis request carries its text and voice; a response is the request with an audio
  resource added (\<open>{ ...request, resource }\<close>). The audio is either what the engine
  synthesized for the request or the empty resource of \<open>createEmptyAudioResource()\<close>.
\<close>

datatype audio = Synthesized string | EmptyAudio

record tts_request =
  speech_text :: string
  speech_voice :: string

record tts_response = tts_request +
  resource :: audio

definition with_resource :: "tts_request \<Rightarrow> audio \<Rightarrow> tts_response" where
  "with_resource q a =
     \<lparr>speech_text = speech_text q, speech_voice = speech_voice q, resource = a\<rparr>"

datatype speech_event = SpeechReady | SpeechError err

text \<open>\<open>class PlayableSpeechImpl\<close>: the request, the response, and the events emitted so far.\<close>

record speech =
  request :: tts_request
  response :: "tts_response option"
  emitted :: "speech_event list"

text \<open>The constructor: no response yet, nothing emitted.\<close>

definition PlayableSpeechImpl :: "tts_request \<Rightarrow> speech" where
  "PlayableSpeechImpl q = \<lparr>request = q, response = None, emitted = []\<rparr>"

text \<open>
  \<open>PlayableSpeechImpl.generate\<close>. The generator is a parameter of the class; it acts on a
  world \<open>'w\<close> of its own and either yields a response or rejects.
\<close>

definition generate ::
  "(tts_request \<Rightarrow> 'w \<Rightarrow> (err + tts_response) \<times> 'w) \<Rightarrow> speech \<times> 'w \<Rightarrow> speech \<times> 'w" where
  "generate generator sw =
     (case sw of (s, w) \<Rightarrow>
        (case response s of
           Some resp \<Rightarrow> (s, w)
         | None \<Rightarrow>
             (case generator (request s) w of
                (Inr resp, w1) \<Rightarrow>
                  (s\<lparr>response := Some resp, emitted := emitted s @ [SpeechReady]\<rparr>, w1)
              | (Inl e, w1) \<Rightarrow> (s\<lparr>emitted := emitted s @ [SpeechError e]\<rparr>, w1))))"

text \<open>
  The generator that \<open>GuildAssistant.createSpeech\<close> binds: the hook \<open>speak\<close>, then the
  empty resource for an empty text, else the engine. Its world is the list of calls made on
  the hook bus and the engine, and the oracle of their outcomes.
\<close>

datatype engine_call = HookSpeak | CreateEmptyAudioResource | TtsGenerate string tts_request

record backend =
  engine_calls :: "engine_call list"
  outcomes :: "outcome list"

definition engine_call :: "engine_call \<Rightarrow> backend \<Rightarrow> outcome \<times> backend" where
  "engine_call c w =
     (next_outcome (outcomes w),
      w\<lparr>engine_calls := engine_calls w @ [c], outcomes := tl (outcomes w)\<rparr>)"

definition speech_generator :: "string \<Rightarrow> tts_request \<Rightarrow> backend \<Rightarrow> (err + tts_response) \<times> backend" where
  "speech_generator tts q w =
     (case engine_call HookSpeak w of
        (Some e, w1) \<Rightarrow> (Inl e, w1)
      | (None, w1) \<Rightarrow>
          if length (speech_text q) = 0 then
            (Inr (with_resource q EmptyAudio),
             w1\<lparr>engine_calls := engine_calls w1 @ [CreateEmptyAudioResource]\<rparr>)
          else
            (case engine_call (TtsGenerate tts q) w1 of
               (Some e, w2) \<Rightarrow> (Inl e, w2)
             | (None, w2) \<Rightarrow> (Inr (with_resource q (Synthesized (speech_text q))), w2)))"

text \<open>
  \<open>createSpeech\<close>: \<open>this.engines.getTTS(options.engine)\<close> gives the engine or throws;
  the request is the one \<open>fallbackVoice\<close> has completed. The new instance has no
  response, has emitted nothing, and is bound to the generator above.
\<close>

definition createSpeech ::
  "err + string \<Rightarrow> tts_request \<Rightarrow>
     err + speech \<times> (tts_request \<Rightarrow> backend \<Rightarrow> (err + tts_response) \<times> backend)" where
  "createSpeech lookup q =
     (case lookup of
        Inl e \<Rightarrow> Inl e
      | Inr tts \<Rightarrow> Inr (PlayableSpeechImpl q, speech_generator tts))"

text \<open>
  Calls that overlap. \<open>generate\<close> is an \<open>async\<close> function: a call reads
  \<open>this.response\<close> and starts the generator, and is then suspended at the \<open>await\<close>;
  the assignment to \<open>this.response\<close> and the \<open>emit\<close> run only when the generator's
  promise has settled, and another call may begin in between. \<open>generate_begin\<close> is a
  call up to its \<open>await\<close>, \<open>generate_resume n\<close> what the call whose generator is the
  \<open>n\<close>-th still pending one does after it. The third component of the state holds the
  results of the generators that were started and whose calls have not resumed yet, in the
  order they were started. The generator's own calls are recorded when it is started: how
  the calls of two running generators interleave is not modelled. The definition
  \<open>generate\<close> above is a call with nothing else pending that is left to run to its end.
\<close>

definition generate_begin ::
  "(tts_request \<Rightarrow> 'w \<Rightarrow> (err + tts_response) \<times> 'w) \<Rightarrow>
     speech \<times> 'w \<times> (err + tts_response) list \<Rightarrow> speech \<times> 'w \<times> (err + tts_response) list" where
  "generate_begin generator x =
     (case x of (s, w, pending) \<Rightarrow>
        (case response s of
           Some resp \<Rightarrow> (s, w, pending)
         | None \<Rightarrow> (case generator (request s) w of (res, w1) \<Rightarrow> (s, w1, pending @ [res]))))"

definition generate_resume ::
  "nat \<Rightarrow> speech \<times> 'w \<times> (err + tts_response) list \<Rightarrow>
     speech \<times> 'w \<times> (err + tts_response) list" where
  "generate_resume n x =
     (case x of (s, w, pending) \<Rightarrow>
        if n < length pending then
          (case pending ! n of
             Inr resp \<Rightarrow>
               (s\<lparr>response := Some resp, emitted := emitted s @ [SpeechReady]\<rparr>, w,
                take n pending @ drop (Suc n) pending)
           | Inl e \<Rightarrow>
               (s\<lparr>emitted := emitted s @ [SpeechError e]\<rparr>, w,
                take n pending @ drop (Suc n) pending))
        else (s, w, pending))"

datatype 'w moment = Begin "tts_request \<Rightarrow> 'w \<Rightarrow> (err + tts_response) \<times> 'w" | Resume nat

fun play ::
  "'w moment list \<Rightarrow> speech \<times> 'w \<times> (err + tts_response) list \<Rightarrow>
     speech \<times> 'w \<times> (err + tts_response) list" where
  "play [] x = x"
| "play (Begin g # ms) x = play ms (generate_begin g x)"
| "play (Resume n # ms) x = play ms (generate_resume n x)"

text \<open>
  Calls made one after another, each begun when the one before has run to its end (as a
  caller does who awaits each call): every \<open>Begin\<close> is followed by its own \<open>Resume\<close>.
\<close>

fun awaited :: "(tts_request \<Rightarrow> 'w \<Rightarrow> (err + tts_response) \<times> 'w) list \<Rightarrow> 'w moment list" where
  "awaited [] = []"
| "awaited (g # gs) = Begin g # Resume 0 # awaited gs"

text \<open>
  The shape of an instance between calls: without a response it has not emitted
  \<open>ready\<close>; with one, \<open>ready\<close> is its last event and occurs nowhere else.
\<close>

definition settled :: "speech \<Rightarrow> bool" where
  "settled s =
     (case response s of
        None \<Rightarrow> SpeechReady \<notin> set (emitted s)
      | Some resp \<Rightarrow>
          emitted s \<noteq> [] \<and> last (emitted s) = SpeechReady \<and>
          SpeechReady \<notin> set (butlast (emitted s)))"

fun is_synthesis :: "engine_call \<Rightarrow> bool" where
  "is_synthesis (TtsGenerate tts q) = True"
| "is_synthesis c = False"

section \<open>Recognition requests\<close>

text \<open>
  \<open>GuildAssistant.transcribe\<close> does not call the hook \<open>transcribe\<close>: it assigns a
  closure that calls it to \<open>options.request.audio.prepare\<close> and hands the request to the
  engine. The field is modelled by the calls that running it makes. The engine is not
  among the sources: of it, only its name and what \<open>stt.transcribe(request)\<close> returns
  appear here. \<open>this.engines.getSTT(options.engine)\<close> gives the engine or throws.
\<close>

datatype stt_step = FallbackVoice | SttTranscribe string | HookTranscribe string

record stt_request =
  prepare :: "stt_step list"

record stt_engine =
  engine_name :: string
  accepts :: bool

definition transcribe :: "err + stt_engine \<Rightarrow> stt_request \<Rightarrow> (err + bool) \<times> stt_request \<times> stt_step list" where
  "transcribe lookup q =
     (case lookup of
        Inl e \<Rightarrow> (Inl e, q, [])
      | Inr stt \<Rightarrow>
          (Inr (accepts stt), q\<lparr>prepare := [HookTranscribe (engine_name stt)]\<rparr>,
           [FallbackVoice, SttTranscribe (engine_name stt)]))"

section \<open>Lifecycle of the guild assistant and of the application\<close>

text \<open>
  \<open>GuildAssistant\<close> and \<open>App\<close> each keep a private \<open>#status\<close> and a datastore, and
  call their subsystems in a fixed order. The state below serves both classes: the status,
  the datastore, the calls made so far and the oracle of their outcomes. Of the log lines,
  those with a fixed text are recorded; the listings of engines and plugins are not.
\<close>

datatype status = unready | preparing | ready | destroying | destroyed

datatype step =
    DataSetup
  | HookGuildAssistantSetup
  | Attach
  | InitializeAssistant
  | InitializeEvents
  | HookCommandsUpdate
  | RestPut "string list"
  | LogInfo string
  | LogWarnMissing "string list"
  | LogError err
  | EmitReady
  | HookDestroy
  | DataDestroy
  | VoiceChannelDestroy
  | EnginesSetup
  | PluginsSetup
  | DiscordSetup
  | HomeSetup
  | DiscordDestroy
  | HomeDestroy

record lifecycle =
  status :: status
  data :: "string \<rightharpoonup> string"
  steps :: "step list"
  answers :: "outcome list"

text \<open>A call without an outcome of its own, and an awaited call.\<close>

definition perform :: "step \<Rightarrow> lifecycle \<Rightarrow> lifecycle" where
  "perform c a = a\<lparr>steps := steps a @ [c]\<rparr>"

definition subsystem :: "step \<Rightarrow> lifecycle \<Rightarrow> outcome \<times> lifecycle" where
  "subsystem c a = (next_outcome (answers a), perform c (a\<lparr>answers := tl (answers a)\<rparr>))"

text \<open>Sequencing of awaited calls: a rejection leaves the function at once.\<close>

definition and_then ::
  "outcome \<times> lifecycle \<Rightarrow> (lifecycle \<Rightarrow> outcome \<times> lifecycle) \<Rightarrow> outcome \<times> lifecycle" where
  "and_then x f = (case x of (None, a) \<Rightarrow> f a | (Some e, a) \<Rightarrow> (Some e, a))"

text \<open>\<open>await promise.catch(this.log.error)\<close>: a rejection is logged and the function goes on.\<close>

definition logged :: "outcome \<times> lifecycle \<Rightarrow> lifecycle" where
  "logged x = (case x of (None, a) \<Rightarrow> a | (Some e, a) \<Rightarrow> perform (LogError e) a)"

text \<open>\<open>Promise.all\<close> of two calls: both are started; the result rejects if either does.\<close>

definition both :: "step \<Rightarrow> step \<Rightarrow> lifecycle \<Rightarrow> outcome \<times> lifecycle" where
  "both c d a =
     (case subsystem c a of
        (out1, a1) \<Rightarrow>
          (case subsystem d a1 of
             (out2, a2) \<Rightarrow> ((case out1 of Some e \<Rightarrow> Some e | None \<Rightarrow> out2), a2)))"

text \<open>
  Modelled from the spec: the \<open>Datastore\<close> class is not among the sources. Its
  \<open>get(key)\<close> and \<open>set(key, value)\<close> are the lookup and the update of a key-value
  store, persisted per assistant.
\<close>

definition data_get :: "string \<Rightarrow> lifecycle \<Rightarrow> string option" where
  "data_get k a = data a k"

definition data_set :: "string \<Rightarrow> string \<Rightarrow> lifecycle \<Rightarrow> lifecycle" where
  "data_set k v a = a\<lparr>data := (data a)(k \<mapsto> v)\<rparr>"

text \<open>
  The end of \<open>#updateSlashCommands\<close>, from the hook \<open>commandsUpdate\<close> on. \<open>cmds\<close> is
  the list of command definitions as it stands after the hook, each by its JSON form;
  \<open>digest\<close> is \<open>createHash('md5').update(JSON.stringify(...)).digest('hex')\<close>, a
  function of that list.
\<close>

definition updateSlashCommands ::
  "(string list \<Rightarrow> string) \<Rightarrow> string list \<Rightarrow> lifecycle \<Rightarrow> outcome \<times> lifecycle" where
  "updateSlashCommands digest cmds a =
     and_then (subsystem HookCommandsUpdate a) (\<lambda>a1.
       if data_get ''slash'' a1 = Some (digest cmds) then (None, a1)
       else and_then (subsystem (RestPut cmds) a1) (\<lambda>a2.
         (None, data_set ''slash'' (digest cmds) a2)))"

text \<open>
  \<open>GuildAssistant.setup\<close>. \<open>slash\<close> is \<open>this.options.slash\<close>; \<open>missing\<close> is the list
  of required permissions the assistant's own member does not have.
\<close>

definition GuildAssistant_setup ::
  "bool \<Rightarrow> (string list \<Rightarrow> string) \<Rightarrow> string list \<Rightarrow> string list \<Rightarrow> lifecycle \<Rightarrow>
     outcome \<times> lifecycle" where
  "GuildAssistant_setup slash digest cmds missing a =
     (if status a \<noteq> unready then (None, a)
      else
        and_then (subsystem DataSetup (a\<lparr>status := preparing\<rparr>)) (\<lambda>a1.
        and_then (subsystem HookGuildAssistantSetup a1) (\<lambda>a2.
        and_then (subsystem Attach a2) (\<lambda>a3.
        and_then
          (if slash
           then updateSlashCommands digest cmds
                  (perform InitializeEvents (perform InitializeAssistant a3))
           else (None, perform InitializeEvents (perform InitializeAssistant a3))) (\<lambda>a4.
        (None,
         if missing = []
         then perform EmitReady ((perform (LogInfo ''Ready'') a4)\<lparr>status := ready\<rparr>)
         else perform (LogWarnMissing missing)
                (perform EmitReady ((perform (LogInfo ''Ready'') a4)\<lparr>status := ready\<rparr>))))))))"

text \<open>
  \<open>GuildAssistant.destroy\<close>. The voice channel is destroyed by a plain call: if it
  throws, the function is left with the status \<open>destroying\<close>.
\<close>

definition GuildAssistant_destroy :: "lifecycle \<Rightarrow> outcome \<times> lifecycle" where
  "GuildAssistant_destroy a =
     (if status a \<noteq> ready then (None, a)
      else
        and_then
          (subsystem VoiceChannelDestroy
             (logged (subsystem DataDestroy
                (logged (subsystem HookDestroy (a\<lparr>status := destroying\<rparr>)))))) (\<lambda>a1.
        (None, (perform (LogInfo ''Destroyed'') a1)\<lparr>status := destroyed\<rparr>)))"

text \<open>\<open>App.setup\<close> and \<open>App.destroy\<close>.\<close>

definition App_setup :: "lifecycle \<Rightarrow> outcome \<times> lifecycle" where
  "App_setup a =
     (if status a \<noteq> unready then (None, a)
      else
        and_then (subsystem EnginesSetup
                    (perform (LogInfo ''Launching iwassistant'') (a\<lparr>status := preparing\<rparr>))) (\<lambda>a1.
        and_then (subsystem DataSetup a1) (\<lambda>a2.
        and_then (subsystem PluginsSetup a2) (\<lambda>a3.
        and_then (subsystem Attach a3) (\<lambda>a4.
        and_then (both DiscordSetup HomeSetup a4) (\<lambda>a5.
        (None, perform EmitReady ((perform (LogInfo ''Ready'') a5)\<lparr>status := ready\<rparr>))))))))"

text \<open>
  \<open>Promise.all\<close> of two calls that each carry \<open>.catch(this.log.error)\<close>: both are
  started, then their rejections are logged.
\<close>

definition both_logged :: "step \<Rightarrow> step \<Rightarrow> lifecycle \<Rightarrow> lifecycle" where
  "both_logged c d a =
     (case subsystem c a of
        (out1, a1) \<Rightarrow>
          (case subsystem d a1 of
             (out2, a2) \<Rightarrow> logged (out2, logged (out1, a2))))"

definition App_destroy :: "lifecycle \<Rightarrow> outcome \<times> lifecycle" where
  "App_destroy a =
     (if status a \<noteq> ready then (None, a)
      else
        (None,
         (perform (LogInfo ''Destroyed'')
            (logged (subsystem DataDestroy
               (both_logged DiscordDestroy HomeDestroy
                  (logged (subsystem HookDestroy (a\<lparr>status := destroying\<rparr>)))))))
         \<lparr>status := destroyed\<rparr>))"

text \<open>The position of a status in the order of the enumeration.\<close>

fun rank :: "status \<Rightarrow> nat" where
  "rank unready = 0"
| "rank preparing = 1"
| "rank ready = 2"
| "rank destroying = 3"
| "rank destroyed = 4"

text \<open>
  Any sequence of calls of \<open>setup\<close> and \<open>destroy\<close> on one object, whatever they
  return. An object receives the calls of its own class; the sequences here are not
  restricted to one class, which only adds cases.
\<close>

datatype request =
    GuildSetup bool "string list" "string list"
  | GuildDestroy
  | AppSetup
  | AppDestroy

fun serve :: "(string list \<Rightarrow> string) \<Rightarrow> request \<Rightarrow> lifecycle \<Rightarrow> lifecycle" where
  "serve digest (GuildSetup slash cmds missing) a =
     snd (GuildAssistant_setup slash digest cmds missing a)"
| "serve digest GuildDestroy a = snd (GuildAssistant_destroy a)"
| "serve digest AppSetup a = snd (App_setup a)"
| "serve digest AppDestroy a = snd (App_destroy a)"

fun serve_all :: "(string list \<Rightarrow> string) \<Rightarrow> request list \<Rightarrow> lifecycle \<Rightarrow> lifecycle" where
  "serve_all digest [] a = a"
| "serve_all digest (q # qs) a = serve_all digest qs (serve digest q a)"


section \<open>The definitions of the slash commands\<close>






















section \<open>Properties of the command pipeline\<close>

lemma issue_simps:
  "trace (issue a s) = trace s @ [a]"
  "notified (issue a s) = notified s"
  "replied (issue a s) = replied s"
  "timer (issue a s) = timer s"
  "message (issue a s) = message s"
  "world (issue a s) = world s"
  by (simp_all add: issue_def)

lemmas event_defs =
  event_notify_slash_def event_notify_text_def event_notify_voice_def
  event_reply_slash_def event_reply_text_def event_reply_voice_def
  notify_closure_def source_reply_def source_followUp_def platform_def Let_def

lemmas run_defs =
  runCommandByInteraction_def runCommandByMessage_def runCommandByAudio_def after_body_def
  finish_def catch_slash_def catch_text_def catch_voice_def clearTimeout_def timeout_fires_def
  new_event_def issue_def has_def required_def

lemma caught_trace: "trace (caught (out, s)) = trace s @ sink out"
  by (cases out) (simp_all add: issue_simps)

subsection \<open>Notification happens once\<close>

lemma event_notify_noop: "notified s \<Longrightarrow> event_notify k r s = (None, s)"
  by (cases k) (simp_all add: event_notify_slash_def event_notify_text_def event_notify_voice_def)

lemma notify_many_noop: "notified s \<Longrightarrow> notify_many k rs s = s"
  by (induction rs) (simp_all add: event_notify_noop)

lemma event_notify_first:
  assumes "\<not> notified s" "message s = None"
  shows "notified (snd (event_notify k r s)) \<and>
         (\<exists>a. carries (CommandResultEmoji r) a \<and>
              trace (snd (event_notify k r s)) = trace s @ [Beep r, a])"
  using assms
  by (cases k) (auto simp: event_defs issue_simps split: option.splits prod.splits)

text \<open>
  Claim C1. On each of the three paths \<open>notify\<close> on an event that is already notified
  does nothing: it resolves and leaves the state, the trace included, as it was; so the flag
  never goes back to false. On an event that has not been notified (and, on the voice path,
  whose closure has sent no message yet, as is the case until the first \<open>notify\<close> or
  \<open>reply\<close>), any number of calls of \<open>notify\<close>, with any results and whatever the
  platform answers, sets the flag and issues exactly two calls: one audible cue and one
  result indicator, both for the result of the first call.
\<close>

theorem notify_at_most_once:
  "(notified s \<longrightarrow> event_notify k r s = (None, s)) \<and>
   (\<not> notified s \<and> message s = None \<longrightarrow>
      notified (notify_many k (r # rs) s) \<and>
      (\<exists>a. carries (CommandResultEmoji r) a \<and>
           trace (notify_many k (r # rs) s) = trace s @ [Beep r, a]))"
  using event_notify_first [of s k r] by (auto simp: event_notify_noop notify_many_noop)

text \<open>
  An instance of C1: three calls on a fresh voice event whose first send the platform
  rejects, and a second call on a slash event that has been notified.
\<close>

theorem notify_at_most_once_witness:
  "notified (notify_many Voice [success, failure, success] (new_event [Some ''down''])) \<and>
   trace (notify_many Voice [success, failure, success] (new_event [Some ''down''])) =
     [Beep success, DestinationSend emoji_success] \<and>
   event_notify Slash failure (snd (event_notify Slash success (new_event []))) =
     (None, snd (event_notify Slash success (new_event [])))"
  using notify_at_most_once [of "new_event [Some ''down'']" Voice success "[failure, success]"]
    notify_at_most_once [of "snd (event_notify Slash success (new_event []))" Slash failure "[]"]
  by (simp add: new_event_def event_defs issue_def)

subsection \<open>Replies\<close>

lemma event_reply_notified:
  "fst (event_reply k p r s) = None \<Longrightarrow> notified (snd (event_reply k p r s))"
  by (cases k) (auto simp: event_defs issue_simps split: option.splits prod.splits if_splits)

lemma event_reply_fresh:
  assumes "\<not> notified s" "message s = None"
  shows "\<exists>a. carries (CommandResultEmoji r) a \<and>
           trace (snd (event_reply k p r s)) =
             trace s @ [Beep r, a] @
               (if next_outcome (world s) = None then [payload_send k p] else [])"
  using assms
  by (cases k) (auto simp: event_defs issue_simps split: option.splits prod.splits)

lemma event_reply_again:
  assumes "notified s" "k = Voice \<longrightarrow> message s \<noteq> None"
  shows "trace (snd (event_reply k p r s)) = trace s @ [payload_send k p]"
  using assms
  by (cases k) (auto simp: event_defs issue_simps split: option.splits prod.splits)

lemma event_reply_voice_unsent:
  assumes "notified s" "message s = None"
  shows "trace (snd (event_reply Voice p r s)) =
           trace s @ [Beep r, DestinationSend (CommandResultEmoji r)] @
             (if next_outcome (world s) = None then [MessageReply p] else [])"
  using assms
  by (auto simp: event_defs issue_simps split: option.splits prod.splits)

text \<open>
  Claim C10 fails on the voice path. There \<open>reply\<close> calls the closure \<open>notify\<close> after
  \<open>event.notify\<close>, and the closure is guarded by the memoized message, not by the flag.
  A voice event whose first notification was rejected by the platform is notified and has
  no message: a reply on it plays the cue and sends the indicator message a second time.
\<close>

theorem reply_second_indicator_voice:
  "notified (snd (event_notify Voice success (new_event [Some ''down'']))) \<and>
   trace (snd (event_notify Voice success (new_event [Some ''down'']))) =
     [Beep success, DestinationSend emoji_success] \<and>
   trace (snd (event_reply Voice ''hi'' success
       (snd (event_notify Voice success (new_event [Some ''down'']))))) =
     [Beep success, DestinationSend emoji_success,
      Beep success, DestinationSend emoji_success, MessageReply ''hi'']"
  by (simp add: run_defs event_defs)

text \<open>
  Claim C10, amended. On the three paths a reply that resolves leaves the event notified.
  On an event not yet notified it issues the cue and the indicator of \<open>notify\<close> first and
  the payload after them, and the payload only if the notification went through. On an
  event already notified it issues the payload alone on the slash and text paths, and on
  the voice path when the indicator message has been sent; on the voice path, while no
  indicator message has been sent, it issues the cue and the indicator message again, and
  then the payload if that send went through.
\<close>

theorem reply_notifies_first:
  "(fst (event_reply k p r s) = None \<longrightarrow> notified (snd (event_reply k p r s))) \<and>
   (\<not> notified s \<and> message s = None \<longrightarrow>
      (\<exists>a. carries (CommandResultEmoji r) a \<and>
           trace (snd (event_reply k p r s)) =
             trace s @ [Beep r, a] @
               (if next_outcome (world s) = None then [payload_send k p] else []))) \<and>
   (notified s \<and> (k = Voice \<longrightarrow> message s \<noteq> None) \<longrightarrow>
      trace (snd (event_reply k p r s)) = trace s @ [payload_send k p]) \<and>
   (notified s \<and> message s = None \<longrightarrow>
      trace (snd (event_reply Voice p r s)) =
        trace s @ [Beep r, DestinationSend (CommandResultEmoji r)] @
          (if next_outcome (world s) = None then [MessageReply p] else []))"
  using event_reply_notified [of k p r s] event_reply_fresh [of s r k p]
    event_reply_again [of s k p r] event_reply_voice_unsent [of s p r]
  by blast

text \<open>
  Instances of C10 as amended: a first reply on the text path, a reply after a
  notification on the slash path, a reply on a voice event whose indicator was sent, and
  one on a voice event whose indicator the platform rejected.
\<close>

theorem reply_notifies_first_witness:
  "trace (snd (event_reply Text ''hi'' failure (new_event []))) =
     [Beep failure, MessageReact emoji_failure, MessageReply ''hi''] \<and>
   notified (snd (event_reply Text ''hi'' failure (new_event []))) \<and>
   trace (snd (event_reply Slash ''hi'' failure (snd (event_notify Slash success (new_event []))))) =
     [Beep success, InteractionReply (Emoji emoji_success), InteractionFollowUp (Payload ''hi'')] \<and>
   trace (snd (event_reply Voice ''hi'' failure (snd (event_notify Voice success (new_event []))))) =
     [Beep success, DestinationSend emoji_success, MessageReply ''hi''] \<and>
   trace (snd (event_reply Voice ''hi'' failure
       (snd (event_notify Voice success (new_event [Some ''down'', Some ''down'']))))) =
     [Beep success, DestinationSend emoji_success, Beep failure, DestinationSend emoji_failure]"
  using reply_notifies_first [of Text "''hi''" failure "new_event []"]
    reply_notifies_first [of Voice "''hi''" failure
      "snd (event_notify Voice success (new_event [Some ''down'', Some ''down'']))"]
    reply_notifies_first [of Slash "''hi''" failure "snd (event_notify Slash success (new_event []))"]
    reply_notifies_first [of Voice "''hi''" failure "snd (event_notify Voice success (new_event []))"]
  by (simp add: run_defs event_defs)

subsection \<open>Members without the required permissions\<close>

lemma forbidden_text_trace:
  "\<not> has perms (required c) \<Longrightarrow>
     trace (runCommandByMessage c (Inr perms) w) =
       [MessageReact emoji_forbidden, Beep failure, CommandLog Warn ''forbidden'' None] @
         sink (next_outcome w)"
  by (simp add: runCommandByMessage_def platform_def caught_trace issue_simps new_event_def)

lemma forbidden_voice_trace:
  "\<not> has perms (required c) \<Longrightarrow>
     trace (runCommandByAudio c perms w) = [Beep failure, CommandLog Warn ''forbidden'' None]"
  by (simp add: runCommandByAudio_def issue_simps new_event_def)

text \<open>
  Claim C3 fails on the voice path: a member without the required permission gets the
  failure cue and a warning in the log, and no indicator of any kind is sent.
\<close>

theorem forbidden_voice_shows_no_indicator:
  "\<not> has [''SendMessages'']
       (required \<lparr>permissions = Some [''ManageGuild''], calls = [], completion = Returns None\<rparr>) \<and>
   filter is_indicator
     (trace (runCommandByAudio
        \<lparr>permissions = Some [''ManageGuild''], calls = [], completion = Returns None\<rparr>
        [''SendMessages''] [])) = []"
  by (simp add: has_def required_def runCommandByAudio_def issue_def new_event_def
        is_indicator_def)

text \<open>
  Claim C3, amended. When the invoking member lacks one of the permissions the command
  declares, the command body is not invoked on the text path nor on the voice path. On the
  text path the forbidden indicator is sent as a reaction, followed by the failure cue and a
  warning in the log (and by an error line if the platform rejects the reaction). On the
  voice path the failure cue is played and the warning logged; no indicator is sent.
\<close>

theorem forbidden_member_never_executes:
  "\<not> has perms (required c) \<longrightarrow>
     Execute \<notin> set (trace (runCommandByMessage c (Inr perms) w)) \<and>
     Execute \<notin> set (trace (runCommandByAudio c perms w)) \<and>
     trace (runCommandByMessage c (Inr perms) w) =
       [MessageReact emoji_forbidden, Beep failure, CommandLog Warn ''forbidden'' None] @
         sink (next_outcome w) \<and>
     trace (runCommandByAudio c perms w) = [Beep failure, CommandLog Warn ''forbidden'' None]"
  by (cases "next_outcome w") (simp_all add: forbidden_text_trace forbidden_voice_trace)

text \<open>An instance of C3 as amended: a command for managers, invoked by a member who may only write.\<close>

theorem forbidden_member_never_executes_witness:
  "\<not> has [''SendMessages'']
       (required \<lparr>permissions = Some [''ManageGuild''], calls = [CallNotify success],
          completion = Returns None\<rparr>) \<and>
   trace (runCommandByMessage
       \<lparr>permissions = Some [''ManageGuild''], calls = [CallNotify success],
          completion = Returns None\<rparr> (Inr [''SendMessages'']) []) =
     [MessageReact emoji_forbidden, Beep failure, CommandLog Warn ''forbidden'' None] \<and>
   trace (runCommandByAudio
       \<lparr>permissions = Some [''ManageGuild''], calls = [CallNotify success],
          completion = Returns None\<rparr> [''SendMessages''] []) =
     [Beep failure, CommandLog Warn ''forbidden'' None]"
  using forbidden_member_never_executes [of "[''SendMessages'']"
      "\<lparr>permissions = Some [''ManageGuild''], calls = [CallNotify success],
         completion = Returns None\<rparr>" "[]"]
  by (simp add: has_def required_def)

subsection \<open>How the body ended\<close>

lemma event_notify_logs:
  "filter is_command_log (trace (snd (event_notify k r s))) = filter is_command_log (trace s)"
  by (cases k) (auto simp: event_defs issue_simps split: option.splits prod.splits)

lemma event_reply_logs:
  "filter is_command_log (trace (snd (event_reply k p r s))) = filter is_command_log (trace s)"
  by (cases k) (auto simp: event_defs issue_simps split: option.splits prod.splits)

lemma timeout_fires_logs:
  "filter is_command_log (trace (timeout_fires s)) = filter is_command_log (trace s)"
  by (auto simp: timeout_fires_def event_defs issue_simps split: option.splits prod.splits)

lemma execute_logs:
  "filter is_command_log (trace (execute k cs s)) = filter is_command_log (trace s)"
  by (induction k cs s rule: execute.induct)
     (simp_all add: event_notify_logs event_reply_logs timeout_fires_logs)

lemma after_body_logs:
  "filter is_command_log (trace (after_body k c (new_event w))) = []"
  "filter is_command_log (trace (after_body k c ((new_event w)\<lparr>timer := True\<rparr>))) = []"
  by (simp_all add: after_body_def execute_logs issue_simps new_event_def)

lemma finish_logs:
  "filter is_command_log (trace (finish k v s)) =
     filter is_command_log (trace s) @ [CommandLog Info (result_name (result_of v)) None]"
  using event_notify_logs [of k "result_of v" s]
  by (cases "event_notify k (result_of v) s"; cases "fst (event_notify k (result_of v) s)")
     (auto simp: finish_def issue_simps)

lemma catch_slash_trace:
  "trace (catch_slash e s) =
     trace s @ (if replied s then [] else [InteractionReply (Emoji emoji_failure)]) @
       [Beep failure, CommandLog Error ''error'' (Some e)] @
       (if replied s then [] else sink (next_outcome (world s)))"
  by (auto simp: catch_slash_def event_defs issue_simps split: option.splits prod.splits)

lemma catch_text_trace:
  "trace (catch_text e s) =
     trace s @ [MessageReact emoji_failure, Beep failure, CommandLog Error ''error'' (Some e)] @
       sink (next_outcome (world s))"
  by (simp add: catch_text_def platform_def caught_trace issue_simps)

lemma catch_voice_trace:
  "trace (catch_voice e s) = trace s @ [Beep failure, CommandLog Error ''error'' (Some e)]"
  by (simp add: catch_voice_def issue_simps)

lemma catch_logs:
  "filter is_command_log (trace (catch_slash e s)) =
     filter is_command_log (trace s) @ [CommandLog Error ''error'' (Some e)]"
  "filter is_command_log (trace (catch_text e s)) =
     filter is_command_log (trace s) @ [CommandLog Error ''error'' (Some e)]"
  "filter is_command_log (trace (catch_voice e s)) =
     filter is_command_log (trace s) @ [CommandLog Error ''error'' (Some e)]"
  by (cases "next_outcome (world s)";
      simp add: catch_slash_trace catch_text_trace catch_voice_trace)+

lemma thrown_slash:
  "completion c = Throws e \<Longrightarrow>
     runCommandByInteraction c True w =
       catch_slash e (after_body Slash c ((new_event w)\<lparr>timer := True\<rparr>))"
  by (simp add: runCommandByInteraction_def)

lemma thrown_text:
  "completion c = Throws e \<Longrightarrow> has perms (required c) \<Longrightarrow>
     runCommandByMessage c (Inr perms) w = catch_text e (after_body Text c (new_event w))"
  by (simp add: runCommandByMessage_def)

lemma thrown_voice:
  "completion c = Throws e \<Longrightarrow> has perms (required c) \<Longrightarrow>
     runCommandByAudio c perms w = catch_voice e (after_body Voice c (new_event w))"
  by (simp add: runCommandByAudio_def)

lemma returned_slash:
  "completion c = Returns v \<Longrightarrow>
     runCommandByInteraction c True w =
       finish Slash v (clearTimeout (after_body Slash c ((new_event w)\<lparr>timer := True\<rparr>)))"
  by (simp add: runCommandByInteraction_def)

lemma returned_text:
  "completion c = Returns v \<Longrightarrow> has perms (required c) \<Longrightarrow>
     runCommandByMessage c (Inr perms) w = finish Text v (after_body Text c (new_event w))"
  by (simp add: runCommandByMessage_def)

lemma returned_voice:
  "completion c = Returns v \<Longrightarrow> has perms (required c) \<Longrightarrow>
     runCommandByAudio c perms w = finish Voice v (after_body Voice c (new_event w))"
  by (simp add: runCommandByAudio_def)

lemma clearTimeout_trace: "trace (clearTimeout s) = trace s"
  by (simp add: clearTimeout_def)

text \<open>
  Claim C2 fails on two paths. On the voice path a body that throws is answered by the
  failure cue and the error line alone: nothing is sent to the member. On the slash path
  the failure indicator is sent only while the interaction has not been replied to: a body
  that notified success and then throws leaves the success indicator as the only one.
\<close>

theorem thrown_failure_without_emoji:
  "filter (carries emoji_failure)
     (trace (runCommandByAudio
        \<lparr>permissions = None, calls = [], completion = Throws ''boom''\<rparr> [] [])) = [] \<and>
   filter (carries emoji_failure)
     (trace (runCommandByInteraction
        \<lparr>permissions = None, calls = [CallNotify success], completion = Throws ''boom''\<rparr>
        True [])) = []"
  by (simp add: run_defs event_defs)

text \<open>
  Claim C2, amended. When the body of a command that is allowed to run throws, every path
  plays the failure cue and then logs the failure at error level with the error that was
  thrown, and that is the only line the pipeline logs for the command. Before the cue, the
  text path sends the failure indicator as a reaction; the slash path sends it as the reply
  to the interaction unless the interaction has been replied to already; the voice path
  sends nothing. When the body returns \<open>false\<close>, the only line logged for the command
  is the failure at info level.
\<close>

theorem thrown_failure_reported:
  "(completion c = Throws e \<and> has perms (required c) \<longrightarrow>
      (let slash = after_body Slash c ((new_event w)\<lparr>timer := True\<rparr>);
           text = after_body Text c (new_event w);
           voice = after_body Voice c (new_event w)
       in trace (runCommandByInteraction c True w) =
            trace slash @
              (if replied slash then [] else [InteractionReply (Emoji emoji_failure)]) @
              [Beep failure, CommandLog Error ''error'' (Some e)] @
              (if replied slash then [] else sink (next_outcome (world slash))) \<and>
          trace (runCommandByMessage c (Inr perms) w) =
            trace text @
              [MessageReact emoji_failure, Beep failure, CommandLog Error ''error'' (Some e)] @
              sink (next_outcome (world text)) \<and>
          trace (runCommandByAudio c perms w) =
            trace voice @ [Beep failure, CommandLog Error ''error'' (Some e)]) \<and>
      filter is_command_log (trace (runCommandByInteraction c True w)) =
        [CommandLog Error ''error'' (Some e)] \<and>
      filter is_command_log (trace (runCommandByMessage c (Inr perms) w)) =
        [CommandLog Error ''error'' (Some e)] \<and>
      filter is_command_log (trace (runCommandByAudio c perms w)) =
        [CommandLog Error ''error'' (Some e)]) \<and>
   (completion c = Returns (Some False) \<and> has perms (required c) \<longrightarrow>
      filter is_command_log (trace (runCommandByInteraction c True w)) =
        [CommandLog Info ''failure'' None] \<and>
      filter is_command_log (trace (runCommandByMessage c (Inr perms) w)) =
        [CommandLog Info ''failure'' None] \<and>
      filter is_command_log (trace (runCommandByAudio c perms w)) =
        [CommandLog Info ''failure'' None])"
proof (intro conjI impI)
  assume h: "completion c = Throws e \<and> has perms (required c)"
  show "let slash = after_body Slash c ((new_event w)\<lparr>timer := True\<rparr>);
           text = after_body Text c (new_event w);
           voice = after_body Voice c (new_event w)
       in trace (runCommandByInteraction c True w) =
            trace slash @
              (if replied slash then [] else [InteractionReply (Emoji emoji_failure)]) @
              [Beep failure, CommandLog Error ''error'' (Some e)] @
              (if replied slash then [] else sink (next_outcome (world slash))) \<and>
          trace (runCommandByMessage c (Inr perms) w) =
            trace text @
              [MessageReact emoji_failure, Beep failure, CommandLog Error ''error'' (Some e)] @
              sink (next_outcome (world text)) \<and>
          trace (runCommandByAudio c perms w) =
            trace voice @ [Beep failure, CommandLog Error ''error'' (Some e)]"
    unfolding Let_def using h
    by (simp only: thrown_slash thrown_text thrown_voice catch_slash_trace catch_text_trace
          catch_voice_trace simp_thms)
  show "filter is_command_log (trace (runCommandByInteraction c True w)) =
        [CommandLog Error ''error'' (Some e)]"
    using h by (simp add: thrown_slash catch_logs after_body_logs)
  show "filter is_command_log (trace (runCommandByMessage c (Inr perms) w)) =
        [CommandLog Error ''error'' (Some e)]"
    using h by (simp add: thrown_text catch_logs after_body_logs)
  show "filter is_command_log (trace (runCommandByAudio c perms w)) =
        [CommandLog Error ''error'' (Some e)]"
    using h by (simp add: thrown_voice catch_logs after_body_logs)
next
  assume h: "completion c = Returns (Some False) \<and> has perms (required c)"
  show "filter is_command_log (trace (runCommandByInteraction c True w)) =
        [CommandLog Info ''failure'' None]"
    using h by (simp add: returned_slash finish_logs clearTimeout_trace after_body_logs)
  show "filter is_command_log (trace (runCommandByMessage c (Inr perms) w)) =
        [CommandLog Info ''failure'' None]"
    using h by (simp add: returned_text finish_logs after_body_logs)
  show "filter is_command_log (trace (runCommandByAudio c perms w)) =
        [CommandLog Info ''failure'' None]"
    using h by (simp add: returned_voice finish_logs after_body_logs)
qed

text \<open>
  Instances of C2 as amended: a body that throws at once, on the three paths, and a body
  that replies and returns \<open>false\<close>, on the text path.
\<close>

theorem thrown_failure_reported_witness:
  "trace (runCommandByInteraction
       \<lparr>permissions = None, calls = [], completion = Throws ''boom''\<rparr> True []) =
     [Execute, InteractionReply (Emoji emoji_failure), Beep failure,
      CommandLog Error ''error'' (Some ''boom'')] \<and>
   trace (runCommandByMessage
       \<lparr>permissions = None, calls = [], completion = Throws ''boom''\<rparr> (Inr []) []) =
     [Execute, MessageReact emoji_failure, Beep failure,
      CommandLog Error ''error'' (Some ''boom'')] \<and>
   trace (runCommandByAudio
       \<lparr>permissions = None, calls = [], completion = Throws ''boom''\<rparr> [] []) =
     [Execute, Beep failure, CommandLog Error ''error'' (Some ''boom'')] \<and>
   filter is_command_log
     (trace (runCommandByMessage
        \<lparr>permissions = None, calls = [CallReply ''no'' failure],
           completion = Returns (Some False)\<rparr> (Inr []) [])) =
     [CommandLog Info ''failure'' None]"
  using thrown_failure_reported
      [of "\<lparr>permissions = None, calls = [], completion = Throws ''boom''\<rparr>" "''boom''" "[]" "[]"]
    thrown_failure_reported
      [of "\<lparr>permissions = None, calls = [CallReply ''no'' failure],
            completion = Returns (Some False)\<rparr>" "''x''" "[]" "[]"]
  by (simp add: run_defs event_defs)

subsection \<open>The acknowledgment timer\<close>

lemma finish_timer: "timer (finish k v s) = timer s"
  by (cases k; cases "next_outcome (world s)")
     (auto simp: finish_def event_defs issue_def split: option.splits prod.splits)

lemma timer_cleared_on_return:
  "completion c = Returns v \<Longrightarrow> \<not> timer (runCommandByInteraction c True w)"
  by (simp add: returned_slash finish_timer clearTimeout_def)

text \<open>
  Claim C4 holds when the body returns (\<open>timer_cleared_on_return\<close>) and fails when it
  throws: \<open>clearTimeout\<close> stands after the \<open>await\<close> inside the \<open>async\<close> function, and
  the \<open>catch\<close> handler does not call it. For a body that throws before the deadline the
  timer is still pending when the handler is done. At the deadline the placeholder reply is
  issued after the failure indicator; the platform library refuses a second reply to an
  interaction, and the refusal ends in the error log.
\<close>

theorem timer_survives_throw:
  "timer (runCommandByInteraction
       \<lparr>permissions = None, calls = [], completion = Throws ''boom''\<rparr> True
       [None, Some ''InteractionAlreadyReplied'']) \<and>
   trace (timeout_fires (runCommandByInteraction
       \<lparr>permissions = None, calls = [], completion = Throws ''boom''\<rparr> True
       [None, Some ''InteractionAlreadyReplied''])) =
     [Execute, InteractionReply (Emoji emoji_failure), Beep failure,
      CommandLog Error ''error'' (Some ''boom''), InteractionReply Placeholder,
      ErrorSink ''InteractionAlreadyReplied'']"
  by (simp add: run_defs event_defs)

section \<open>Properties of playable speech\<close>

lemmas speech_defs =
  generate_def speech_generator_def engine_call_def with_resource_def PlayableSpeechImpl_def
  generate_begin_def generate_resume_def

lemma generate_ready_noop: "response s \<noteq> None \<Longrightarrow> generate g (s, w) = (s, w)"
  by (auto simp: generate_def)

lemma generate_begin_ready: "response s \<noteq> None \<Longrightarrow> generate_begin g (s, w, ps) = (s, w, ps)"
  by (auto simp: generate_begin_def)

lemma generate_empty:
  "response s = None \<Longrightarrow>
     (case fst (g (request s) w) of
        Inr resp \<Rightarrow>
          fst (generate g (s, w)) = s\<lparr>response := Some resp, emitted := emitted s @ [SpeechReady]\<rparr>
      | Inl e \<Rightarrow> fst (generate g (s, w)) = s\<lparr>emitted := emitted s @ [SpeechError e]\<rparr>) \<and>
     snd (generate g (s, w)) = snd (g (request s) w)"
  by (cases "g (request s) w"; cases "fst (g (request s) w)") (auto simp: generate_def)

text \<open>A call that begins with nothing pending and resumes at once is \<open>generate\<close>.\<close>

lemma generate_alone:
  "generate_resume 0 (generate_begin g (s, w, [])) =
     (fst (generate g (s, w)), snd (generate g (s, w)), [])"
  by (cases "g (request s) w"; cases "fst (g (request s) w)")
     (auto simp: generate_begin_def generate_resume_def generate_def split: option.splits)

lemma generate_settled: "settled (fst sw) \<Longrightarrow> settled (fst (generate g sw))"
  by (cases sw; cases "g (request (fst sw)) (snd sw)"; cases "fst (g (request (fst sw)) (snd sw))")
     (auto simp: generate_def settled_def split: option.splits)

lemma play_awaited:
  "settled s \<Longrightarrow>
     settled (fst (play (awaited gs) (s, w, []))) \<and> snd (snd (play (awaited gs) (s, w, []))) = []"
proof (induction gs arbitrary: s w)
  case Nil
  then show ?case by simp
next
  case (Cons g gs)
  have "settled (fst (generate g (s, w)))"
    using Cons.prems generate_settled [of "(s, w)" g] by simp
  from Cons.IH [OF this, of "snd (generate g (s, w))"]
  show ?case by (simp add: generate_alone)
qed

lemma settled_new: "settled (PlayableSpeechImpl q)"
  by (simp add: settled_def PlayableSpeechImpl_def)

lemma settled_count: "settled s \<Longrightarrow> length (filter (\<lambda>ev. ev = SpeechReady) (emitted s)) \<le> 1"
proof (cases "response s")
  case None
  assume "settled s"
  with None have "SpeechReady \<notin> set (emitted s)" by (simp add: settled_def)
  then have "filter (\<lambda>ev. ev = SpeechReady) (emitted s) = []" by (auto simp: filter_empty_conv)
  then show ?thesis by simp
next
  case (Some resp)
  assume "settled s"
  with Some have ne: "emitted s \<noteq> []" and nr: "SpeechReady \<notin> set (butlast (emitted s))"
    by (simp_all add: settled_def)
  from ne have "emitted s = butlast (emitted s) @ [last (emitted s)]" by simp
  then have "filter (\<lambda>ev. ev = SpeechReady) (emitted s) =
      filter (\<lambda>ev. ev = SpeechReady) (butlast (emitted s)) @
      filter (\<lambda>ev. ev = SpeechReady) [last (emitted s)]"
    by (metis filter_append)
  moreover from nr have "filter (\<lambda>ev. ev = SpeechReady) (butlast (emitted s)) = []"
    by (auto simp: filter_empty_conv)
  ultimately show ?thesis by simp
qed

lemma settled_ready: "settled s \<Longrightarrow> (response s \<noteq> None) = (SpeechReady \<in> set (emitted s))"
  by (cases "response s") (auto simp: settled_def dest: last_in_set)

lemma settled_last: "settled s \<Longrightarrow> SpeechReady \<in> set (emitted s) \<Longrightarrow> last (emitted s) = SpeechReady"
  by (cases "response s") (auto simp: settled_def)

text \<open>
  Claim C5 fails after an error. \<open>generate\<close> is guarded by the response alone, and a
  failed attempt stores nothing: the next call runs the generator again. Here two calls are
  made one after the other; the engine rejects the first synthesis and accepts the second:
  the engine is asked twice, and the instance emits \<open>error\<close> and then \<open>ready\<close>.
\<close>

theorem generate_again_after_error:
  "emitted (fst (play (awaited [speech_generator ''tts'', speech_generator ''tts''])
     (PlayableSpeechImpl \<lparr>speech_text = ''hello'', speech_voice = ''en''\<rparr>,
      \<lparr>engine_calls = [], outcomes = [None, Some ''tts down'']\<rparr>, []))) =
     [SpeechError ''tts down'', SpeechReady] \<and>
   filter is_synthesis (engine_calls (fst (snd
     (play (awaited [speech_generator ''tts'', speech_generator ''tts''])
        (PlayableSpeechImpl \<lparr>speech_text = ''hello'', speech_voice = ''en''\<rparr>,
         \<lparr>engine_calls = [], outcomes = [None, Some ''tts down'']\<rparr>, []))))) =
     [TtsGenerate ''tts'' \<lparr>speech_text = ''hello'', speech_voice = ''en''\<rparr>,
      TtsGenerate ''tts'' \<lparr>speech_text = ''hello'', speech_voice = ''en''\<rparr>]"
  by (simp add: speech_defs)

text \<open>
  Claim C5, amended, for calls made one after another, each begun when the one before has
  run to its end. \<open>generate\<close> does nothing on an instance that holds a response: the
  instance and the world of the generator stay as they are, so the generator is not run
  (this much holds for any call, whatever else is pending). On an instance without a
  response such a call runs the generator once and emits one event: \<open>ready\<close>, storing the
  response, if the generator yields one, and \<open>error\<close>, storing nothing, if it rejects; a
  later call then runs the generator again. Over any sequence of such calls on a new
  instance \<open>ready\<close> is emitted at most once, it is emitted exactly when a response is
  held, and no event follows it. Calls that overlap are left out of the statement.
\<close>

theorem generate_ready_at_most_once:
  "(response s \<noteq> None \<longrightarrow>
      generate g (s, w) = (s, w) \<and> generate_begin g (s, w, ps) = (s, w, ps)) \<and>
   (response s = None \<longrightarrow>
      (case fst (g (request s) w) of
         Inr resp \<Rightarrow>
           fst (generate g (s, w)) =
             s\<lparr>response := Some resp, emitted := emitted s @ [SpeechReady]\<rparr>
       | Inl e \<Rightarrow> fst (generate g (s, w)) = s\<lparr>emitted := emitted s @ [SpeechError e]\<rparr>) \<and>
      snd (generate g (s, w)) = snd (g (request s) w)) \<and>
   length (filter (\<lambda>ev. ev = SpeechReady)
     (emitted (fst (play (awaited gs) (PlayableSpeechImpl q, w, []))))) \<le> 1 \<and>
   (response (fst (play (awaited gs) (PlayableSpeechImpl q, w, []))) \<noteq> None) =
     (SpeechReady \<in> set (emitted (fst (play (awaited gs) (PlayableSpeechImpl q, w, []))))) \<and>
   (SpeechReady \<in> set (emitted (fst (play (awaited gs) (PlayableSpeechImpl q, w, [])))) \<longrightarrow>
      last (emitted (fst (play (awaited gs) (PlayableSpeechImpl q, w, [])))) = SpeechReady)"
proof -
  have st: "settled (fst (play (awaited gs) (PlayableSpeechImpl q, w, [])))"
    using play_awaited [OF settled_new, of gs q w] by simp
  show ?thesis
    using generate_ready_noop [of s g w] generate_begin_ready [of s g w ps]
      generate_empty [of s g w] settled_count [OF st] settled_ready [OF st] settled_last [OF st]
    by blast
qed

text \<open>
  An instance of C5 as amended: two calls, one after the other, on a new instance with an
  engine that answers; the second call changes nothing.
\<close>

theorem generate_ready_at_most_once_witness:
  "play (awaited [speech_generator ''tts'', speech_generator ''tts''])
     (PlayableSpeechImpl \<lparr>speech_text = ''hello'', speech_voice = ''en''\<rparr>,
      \<lparr>engine_calls = [], outcomes = []\<rparr>, []) =
   (\<lparr>request = \<lparr>speech_text = ''hello'', speech_voice = ''en''\<rparr>,
      response = Some \<lparr>speech_text = ''hello'', speech_voice = ''en'',
        resource = Synthesized ''hello''\<rparr>,
      emitted = [SpeechReady]\<rparr>,
    \<lparr>engine_calls = [HookSpeak, TtsGenerate ''tts'' \<lparr>speech_text = ''hello'', speech_voice = ''en''\<rparr>],
      outcomes = []\<rparr>, []) \<and>
   generate (speech_generator ''tts'')
     (generate (speech_generator ''tts'')
        (PlayableSpeechImpl \<lparr>speech_text = ''hello'', speech_voice = ''en''\<rparr>,
         \<lparr>engine_calls = [], outcomes = []\<rparr>)) =
   generate (speech_generator ''tts'')
     (PlayableSpeechImpl \<lparr>speech_text = ''hello'', speech_voice = ''en''\<rparr>,
      \<lparr>engine_calls = [], outcomes = []\<rparr>)"
  using generate_ready_at_most_once
      [where s = "fst (generate (speech_generator ''tts'')
          (PlayableSpeechImpl \<lparr>speech_text = ''hello'', speech_voice = ''en''\<rparr>,
           \<lparr>engine_calls = [], outcomes = []\<rparr>))"
        and g = "speech_generator ''tts''"
        and w = "snd (generate (speech_generator ''tts'')
          (PlayableSpeechImpl \<lparr>speech_text = ''hello'', speech_voice = ''en''\<rparr>,
           \<lparr>engine_calls = [], outcomes = []\<rparr>))"
        and ps = "[]" and gs = "[]"
        and q = "\<lparr>speech_text = ''hello'', speech_voice = ''en''\<rparr>"]
    generate_ready_at_most_once
      [where s = "PlayableSpeechImpl \<lparr>speech_text = ''hello'', speech_voice = ''en''\<rparr>"
        and g = "speech_generator ''tts''" and w = "\<lparr>engine_calls = [], outcomes = []\<rparr>"
        and ps = "[]"
        and gs = "[speech_generator ''tts'', speech_generator ''tts'']"
        and q = "\<lparr>speech_text = ''hello'', speech_voice = ''en''\<rparr>"]
  by (simp add: speech_defs)

text \<open>
  Calls that overlap, for the record. Two calls that both begin before either generator
  has settled both pass the guard: the engine is asked twice and \<open>ready\<close> is emitted
  twice.
\<close>

lemma overlapping_calls_both_run:
  "play [Begin (speech_generator ''tts''), Begin (speech_generator ''tts''), Resume 0, Resume 0]
     (PlayableSpeechImpl \<lparr>speech_text = ''hello'', speech_voice = ''en''\<rparr>,
      \<lparr>engine_calls = [], outcomes = []\<rparr>, []) =
   (\<lparr>request = \<lparr>speech_text = ''hello'', speech_voice = ''en''\<rparr>,
      response = Some \<lparr>speech_text = ''hello'', speech_voice = ''en'',
        resource = Synthesized ''hello''\<rparr>,
      emitted = [SpeechReady, SpeechReady]\<rparr>,
    \<lparr>engine_calls =
       [HookSpeak, TtsGenerate ''tts'' \<lparr>speech_text = ''hello'', speech_voice = ''en''\<rparr>,
        HookSpeak, TtsGenerate ''tts'' \<lparr>speech_text = ''hello'', speech_voice = ''en''\<rparr>],
      outcomes = []\<rparr>, [])"
  by (simp add: speech_defs)

lemma speech_generator_empty:
  "speech_text q = [] \<Longrightarrow>
     filter is_synthesis (engine_calls (snd (speech_generator tts q w))) =
       filter is_synthesis (engine_calls w) \<and>
     fst (speech_generator tts q w) =
       (case next_outcome (outcomes w) of
          None \<Rightarrow> Inr (with_resource q EmptyAudio)
        | Some e \<Rightarrow> Inl e)"
  by (auto simp: speech_generator_def engine_call_def split: option.splits)

text \<open>
  Claim C8 fails when the hook \<open>speak\<close> rejects: the generator awaits the hook before it
  looks at the text, so for an empty text the instance then emits \<open>error\<close> and holds no
  response.
\<close>

theorem empty_text_vetoed:
  "generate (speech_generator ''tts'')
     (PlayableSpeechImpl \<lparr>speech_text = '''', speech_voice = ''en''\<rparr>,
      \<lparr>engine_calls = [], outcomes = [Some ''veto'']\<rparr>) =
   (\<lparr>request = \<lparr>speech_text = '''', speech_voice = ''en''\<rparr>, response = None,
      emitted = [SpeechError ''veto'']\<rparr>,
    \<lparr>engine_calls = [HookSpeak], outcomes = []\<rparr>)"
  by (simp add: speech_defs)

text \<open>
  Claim C8, amended. For an instance without a response and with an empty text,
  \<open>generate\<close> with the generator of \<open>createSpeech\<close> never calls the engine. If the
  hook \<open>speak\<close> resolves, the instance holds the request with the empty audio resource
  and emits \<open>ready\<close>; if the hook rejects, it holds no response and emits \<open>error\<close>
  with the hook's error.
\<close>

theorem empty_text_skips_engine:
  "speech_text (request s) = [] \<and> response s = None \<longrightarrow>
     filter is_synthesis (engine_calls (snd (generate (speech_generator tts) (s, w)))) =
       filter is_synthesis (engine_calls w) \<and>
     (case next_outcome (outcomes w) of
        None \<Rightarrow>
          response (fst (generate (speech_generator tts) (s, w))) =
            Some (with_resource (request s) EmptyAudio) \<and>
          emitted (fst (generate (speech_generator tts) (s, w))) = emitted s @ [SpeechReady]
      | Some e \<Rightarrow>
          response (fst (generate (speech_generator tts) (s, w))) = None \<and>
          emitted (fst (generate (speech_generator tts) (s, w))) = emitted s @ [SpeechError e])"
proof
  assume h: "speech_text (request s) = [] \<and> response s = None"
  then have g: "speech_text (request s) = []" and e: "response s = None" by simp_all
  show "filter is_synthesis (engine_calls (snd (generate (speech_generator tts) (s, w)))) =
       filter is_synthesis (engine_calls w) \<and>
     (case next_outcome (outcomes w) of
        None \<Rightarrow>
          response (fst (generate (speech_generator tts) (s, w))) =
            Some (with_resource (request s) EmptyAudio) \<and>
          emitted (fst (generate (speech_generator tts) (s, w))) = emitted s @ [SpeechReady]
      | Some e \<Rightarrow>
          response (fst (generate (speech_generator tts) (s, w))) = None \<and>
          emitted (fst (generate (speech_generator tts) (s, w))) = emitted s @ [SpeechError e])"
    using generate_empty [OF e, of "speech_generator tts" w]
      speech_generator_empty [OF g, of tts w] e
    by (cases "next_outcome (outcomes w)") auto
qed

text \<open>An instance of C8 as amended: an empty text, a hook that resolves.\<close>

theorem empty_text_skips_engine_witness:
  "generate (speech_generator ''tts'')
     (PlayableSpeechImpl \<lparr>speech_text = '''', speech_voice = ''en''\<rparr>,
      \<lparr>engine_calls = [], outcomes = []\<rparr>) =
   (\<lparr>request = \<lparr>speech_text = '''', speech_voice = ''en''\<rparr>,
      response = Some \<lparr>speech_text = '''', speech_voice = ''en'', resource = EmptyAudio\<rparr>,
      emitted = [SpeechReady]\<rparr>,
    \<lparr>engine_calls = [HookSpeak, CreateEmptyAudioResource], outcomes = []\<rparr>)"
  using empty_text_skips_engine
      [of "PlayableSpeechImpl \<lparr>speech_text = '''', speech_voice = ''en''\<rparr>" "''tts''"
         "\<lparr>engine_calls = [], outcomes = []\<rparr>"]
  by (simp add: speech_defs)

section \<open>Properties of the lifecycle\<close>

lemmas lifecycle_defs =
  GuildAssistant_setup_def GuildAssistant_destroy_def App_setup_def App_destroy_def
  updateSlashCommands_def and_then_def subsystem_def perform_def logged_def both_def
  both_logged_def data_get_def data_set_def

lemma perform_simps:
  "status (perform c a) = status a"
  "data (perform c a) = data a"
  "steps (perform c a) = steps a @ [c]"
  "answers (perform c a) = answers a"
  by (simp_all add: perform_def)

lemma subsystem_simps:
  "status (snd (subsystem c a)) = status a"
  "data (snd (subsystem c a)) = data a"
  "steps (snd (subsystem c a)) = steps a @ [c]"
  "answers (snd (subsystem c a)) = tl (answers a)"
  "fst (subsystem c a) = next_outcome (answers a)"
  by (simp_all add: subsystem_def perform_def)

lemma logged_status: "status (logged x) = status (snd x)"
  by (cases x; cases "fst x") (auto simp: logged_def perform_def)

lemma and_then_status:
  assumes "\<And>b. status b = status (snd x) \<Longrightarrow> status (snd (f b)) \<in> S" "status (snd x) \<in> S"
  shows "status (snd (and_then x f)) \<in> S"
  using assms by (cases x; cases "fst x") (auto simp: and_then_def)

lemma updateSlashCommands_status: "status (snd (updateSlashCommands digest cmds a)) = status a"
  by (auto simp: updateSlashCommands_def and_then_def subsystem_def perform_def data_set_def data_get_def
      split: option.splits prod.splits)

lemma GuildAssistant_setup_status:
  "status a = unready \<Longrightarrow>
     status (snd (GuildAssistant_setup slash digest cmds missing a)) \<in> {preparing, ready}"
  by (auto simp: GuildAssistant_setup_def and_then_def subsystem_def perform_def
        updateSlashCommands_def data_set_def data_get_def
      split: option.splits prod.splits if_splits)

lemma GuildAssistant_destroy_status:
  "status a = ready \<Longrightarrow> status (snd (GuildAssistant_destroy a)) \<in> {destroying, destroyed}"
  by (auto simp: GuildAssistant_destroy_def and_then_def subsystem_def perform_def logged_def
      split: option.splits prod.splits if_splits)

lemma App_setup_status:
  "status a = unready \<Longrightarrow> status (snd (App_setup a)) \<in> {preparing, ready}"
  by (auto simp: App_setup_def and_then_def subsystem_def perform_def both_def
      split: option.splits prod.splits if_splits)

lemma App_destroy_status:
  "status a = ready \<Longrightarrow> status (snd (App_destroy a)) = destroyed"
  by (auto simp: App_destroy_def)

lemma GuildAssistant_setup_noop:
  "status a \<noteq> unready \<Longrightarrow> GuildAssistant_setup slash digest cmds missing a = (None, a)"
  by (simp add: GuildAssistant_setup_def)

lemma App_setup_noop: "status a \<noteq> unready \<Longrightarrow> App_setup a = (None, a)"
  by (simp add: App_setup_def)

lemma GuildAssistant_destroy_noop: "status a \<noteq> ready \<Longrightarrow> GuildAssistant_destroy a = (None, a)"
  by (simp add: GuildAssistant_destroy_def)

lemma App_destroy_noop: "status a \<noteq> ready \<Longrightarrow> App_destroy a = (None, a)"
  by (simp add: App_destroy_def)

lemmas setup_noop = GuildAssistant_setup_noop App_setup_noop

lemmas destroy_noop = GuildAssistant_destroy_noop App_destroy_noop

lemma serve_rank: "rank (status a) \<le> rank (status (serve digest q a))"
proof (cases q)
  case (GuildSetup slash cmds missing)
  show ?thesis
  proof (cases "status a = unready")
    case True
    with GuildAssistant_setup_status [OF True, of slash digest cmds missing] GuildSetup
    show ?thesis by auto
  next
    case False
    with GuildSetup show ?thesis by (simp add: setup_noop)
  qed
next
  case GuildDestroy
  show ?thesis
  proof (cases "status a = ready")
    case True
    with GuildAssistant_destroy_status [OF True] GuildDestroy show ?thesis by auto
  next
    case False
    with GuildDestroy show ?thesis by (simp add: destroy_noop)
  qed
next
  case AppSetup
  show ?thesis
  proof (cases "status a = unready")
    case True
    with App_setup_status [OF True] AppSetup show ?thesis by auto
  next
    case False
    with AppSetup show ?thesis by (simp add: setup_noop)
  qed
next
  case AppDestroy
  show ?thesis
  proof (cases "status a = ready")
    case True
    with App_destroy_status [OF True] AppDestroy show ?thesis by auto
  next
    case False
    with AppDestroy show ?thesis by (simp add: destroy_noop)
  qed
qed

lemma serve_all_rank: "rank (status a) \<le> rank (status (serve_all digest qs a))"
proof (induction qs arbitrary: a)
  case Nil
  show ?case by simp
next
  case (Cons q qs)
  have "rank (status a) \<le> rank (status (serve digest q a))" by (rule serve_rank)
  also have "\<dots> \<le> rank (status (serve_all digest qs (serve digest q a)))" by (rule Cons.IH)
  finally show ?case by simp
qed

lemma serve_all_append: "serve_all digest (qs @ rs) a = serve_all digest rs (serve_all digest qs a)"
  by (induction qs arbitrary: a) simp_all

text \<open>
  Claim C7. For \<open>GuildAssistant\<close> and for \<open>App\<close>: \<open>setup\<close> called with a status
  other than \<open>unready\<close> returns at once and leaves the object as it was, no subsystem
  being called; \<open>destroy\<close> called with a status other than \<open>ready\<close> does the same.
  \<open>setup\<close> called when \<open>unready\<close> ends in \<open>preparing\<close> (a subsystem rejected) or in
  \<open>ready\<close>; \<open>destroy\<close> called when \<open>ready\<close> ends in \<open>destroying\<close> (the voice
  channel threw) or in \<open>destroyed\<close>. Along any sequence of calls, whatever the
  subsystems answer, the status never moves back in the order
  \<open>unready, preparing, ready, destroying, destroyed\<close>.
\<close>

theorem lifecycle_moves_forward:
  "(status a \<noteq> unready \<longrightarrow>
      GuildAssistant_setup slash digest cmds missing a = (None, a) \<and> App_setup a = (None, a)) \<and>
   (status a \<noteq> ready \<longrightarrow>
      GuildAssistant_destroy a = (None, a) \<and> App_destroy a = (None, a)) \<and>
   (status a = unready \<longrightarrow>
      status (snd (GuildAssistant_setup slash digest cmds missing a)) \<in> {preparing, ready} \<and>
      status (snd (App_setup a)) \<in> {preparing, ready}) \<and>
   (status a = ready \<longrightarrow>
      status (snd (GuildAssistant_destroy a)) \<in> {destroying, destroyed} \<and>
      status (snd (App_destroy a)) = destroyed) \<and>
   rank (status (serve_all digest qs a)) \<le> rank (status (serve_all digest (qs @ rs) a))"
proof -
  have "rank (status (serve_all digest qs a)) \<le> rank (status (serve_all digest (qs @ rs) a))"
    by (simp add: serve_all_append serve_all_rank)
  then show ?thesis
    using GuildAssistant_setup_noop [of a slash digest cmds missing] App_setup_noop [of a]
      GuildAssistant_destroy_noop [of a] App_destroy_noop [of a]
      GuildAssistant_setup_status [of a slash digest cmds missing] App_setup_status [of a]
      GuildAssistant_destroy_status [of a] App_destroy_status [of a]
    by blast
qed

text \<open>
  Instances of C7: a second \<open>setup\<close> on a guild assistant that is ready adds no call, a
  \<open>destroy\<close> on an object that is not ready does nothing, an application is set up and
  destroyed, and a guild assistant whose setup hook rejects stays in \<open>preparing\<close>
  whatever is called next.
\<close>

theorem lifecycle_moves_forward_witness:
  "status (snd (GuildAssistant_setup True concat [''ping''] []
       \<lparr>status = unready, data = Map.empty, steps = [], answers = []\<rparr>)) = ready \<and>
   steps (snd (GuildAssistant_setup True concat [''ping''] []
       (snd (GuildAssistant_setup True concat [''ping''] []
          \<lparr>status = unready, data = Map.empty, steps = [], answers = []\<rparr>)))) =
     [DataSetup, HookGuildAssistantSetup, Attach, InitializeAssistant, InitializeEvents,
      HookCommandsUpdate, RestPut [''ping''], LogInfo ''Ready'', EmitReady] \<and>
   status (snd (App_destroy (snd (App_setup
       \<lparr>status = unready, data = Map.empty, steps = [], answers = []\<rparr>)))) = destroyed \<and>
   steps (snd (App_destroy \<lparr>status = unready, data = Map.empty, steps = [], answers = []\<rparr>)) = [] \<and>
   status (serve_all concat [GuildDestroy, GuildSetup False [] [''Speak''], GuildSetup True [] [],
       GuildDestroy, GuildSetup True [] [], GuildDestroy]
       \<lparr>status = unready, data = Map.empty, steps = [], answers = [None, Some ''hook'']\<rparr>) = preparing"
  using lifecycle_moves_forward
      [where a = "\<lparr>status = unready, data = Map.empty, steps = [], answers = []\<rparr>"
        and slash = True and digest = concat and cmds = "[''ping'']" and missing = "[]"
        and qs = "[]" and rs = "[]"]
    lifecycle_moves_forward
      [where a = "snd (GuildAssistant_setup True concat [''ping''] []
          \<lparr>status = unready, data = Map.empty, steps = [], answers = []\<rparr>)"
        and slash = True and digest = concat and cmds = "[''ping'']" and missing = "[]"
        and qs = "[]" and rs = "[]"]
    lifecycle_moves_forward
      [where a = "snd (App_setup \<lparr>status = unready, data = Map.empty, steps = [], answers = []\<rparr>)"
        and slash = True and digest = concat and cmds = "[''ping'']" and missing = "[]"
        and qs = "[]" and rs = "[]"]
  by (simp add: lifecycle_defs)

subsection \<open>Synchronization of the slash commands\<close>












section \<open>Properties of recognition requests\<close>

text \<open>
  What the sources settle about the hook \<open>transcribe\<close>: when \<open>transcribe\<close> hands a
  request to the engine, the hook has not been called; it is what running the
  \<open>prepare\<close> step of the request's audio will call. Who runs that step, and whether
  before the audio is consumed, is decided by code that is not among the sources.
\<close>

lemma transcribe_wires_hook:
  "transcribe (Inr stt) q = (res, q1, own) \<Longrightarrow>
     res = Inr (accepts stt) \<and> prepare q1 = [HookTranscribe (engine_name stt)] \<and>
     HookTranscribe (engine_name stt) \<notin> set own \<and> last own = SttTranscribe (engine_name stt)"
  by (auto simp: transcribe_def)

end
